theory Spec2Isabelle
  imports Main
begin

section \<open>Python values, exceptions and builtins used by the program\<close>

text \<open>
  The values that travel between the SQLite store, the data layer (\<open>data.py\<close>) and the
  console layer (\<open>main.py\<close>): SQL \<open>NULL\<close> is Python's \<open>None\<close>, an \<open>INTEGER\<close> is an
  unbounded \<open>int\<close>, a \<open>TEXT\<close> is a \<open>str\<close>. The storage classes \<open>REAL\<close> and \<open>BLOB\<close> are
  outside this model. A \<open>str\<close> is a list of code points below 256, one \<open>char\<close> each.
\<close>

datatype val = VNone | VInt int | VStr string

text \<open>
  The exceptions the two modules can meet. \<open>OperationalError\<close> and \<open>StatementError\<close> are
  the subclasses of \<open>sqlalchemy.exc.SQLAlchemyError\<close> that executing a statement raises
  (the first wraps the driver's error, the second reports a missing bind value).
\<close>

datatype exn =
    KeyError string
  | ValueError string
  | TypeError string
  | EOFError
  | OperationalError string
  | StatementError string

fun is_SQLAlchemyError :: "exn \<Rightarrow> bool" where
  "is_SQLAlchemyError (OperationalError _) = True"
| "is_SQLAlchemyError (StatementError _) = True"
| "is_SQLAlchemyError _ = False"

fun is_ValueError :: "exn \<Rightarrow> bool" where
  "is_ValueError (ValueError _) = True"
| "is_ValueError _ = False"

text \<open>Sequencing of computations that may raise: the first exception wins.\<close>

definition bindE :: "exn + 'a \<Rightarrow> ('a \<Rightarrow> exn + 'b) \<Rightarrow> exn + 'b" where
  "bindE m f = (case m of Inl e \<Rightarrow> Inl e | Inr x \<Rightarrow> f x)"

text \<open>A \<open>dict\<close> with \<open>str\<close> keys; \<open>d[k]\<close> raises \<open>KeyError\<close> on a missing key.\<close>

type_synonym pydict = "string \<rightharpoonup> val"

definition getitem :: "pydict \<Rightarrow> string \<Rightarrow> exn + val" where
  "getitem d k = (case d k of None \<Rightarrow> Inl (KeyError k) | Some v \<Rightarrow> Inr v)"

text \<open>Truth value of an object, as \<open>if x\<close> tests it.\<close>

fun truthy :: "val \<Rightarrow> bool" where
  "truthy VNone = False"
| "truthy (VInt n) = (n \<noteq> 0)"
| "truthy (VStr s) = (s \<noteq> [])"

text \<open>Decimal rendering of an \<open>int\<close>, as \<open>str\<close> and f-strings produce it.\<close>

fun digits_of :: "nat \<Rightarrow> string" where
  "digits_of n = (if n < 10 then [''0123456789'' ! n]
                  else digits_of (n div 10) @ [''0123456789'' ! (n mod 10)])"

declare digits_of.simps [simp del]

definition str_int :: "int \<Rightarrow> string" where
  "str_int i = (if i < 0 then CHR ''-'' # digits_of (nat (- i)) else digits_of (nat i))"

fun py_str :: "val \<Rightarrow> string" where
  "py_str VNone = ''None''"
| "py_str (VInt n) = str_int n"
| "py_str (VStr s) = s"

text \<open>
  \<open>int(s)\<close> on a \<open>str\<close>, base 10: surrounding whitespace is dropped (below 256 these
  are the blank, TAB, LF, VT, FF, CR, the separators U+001C to U+001F, U+0085 and
  U+00A0), one sign is allowed, then decimal digits, where single underscores may stand
  between two digits. Anything else raises \<open>ValueError\<close>.
\<close>

definition is_space :: "char \<Rightarrow> bool" where
  "is_space c =
     (c \<in> set [CHR '' '', CHR 0x09, CHR 0x0A, CHR 0x0B, CHR 0x0C, CHR 0x0D,
                CHR 0x1C, CHR 0x1D, CHR 0x1E, CHR 0x1F, CHR 0x85, CHR 0xA0])"

definition strip :: "string \<Rightarrow> string" where
  "strip s = rev (dropWhile is_space (rev (dropWhile is_space s)))"

definition digit_val :: "char \<Rightarrow> nat option" where
  "digit_val c = (let n = (of_char c :: nat) in if 48 \<le> n \<and> n \<le> 57 then Some (n - 48) else None)"

fun parse_digits :: "nat \<Rightarrow> string \<Rightarrow> nat option" where
  "parse_digits acc [] = Some acc"
| "parse_digits acc (c # cs) =
     (case digit_val c of
        Some v \<Rightarrow> parse_digits (acc * 10 + v) cs
      | None \<Rightarrow>
          (if c = CHR ''_'' then
             (case cs of
                [] \<Rightarrow> None
              | d # ds \<Rightarrow>
                  (case digit_val d of
                     None \<Rightarrow> None
                   | Some v \<Rightarrow> parse_digits (acc * 10 + v) ds))
           else None))"

definition parse_nat :: "string \<Rightarrow> nat option" where
  "parse_nat s =
     (case s of
        [] \<Rightarrow> None
      | c # cs \<Rightarrow> (case digit_val c of None \<Rightarrow> None | Some v \<Rightarrow> parse_digits v cs))"

definition int_of_str :: "string \<Rightarrow> int option" where
  "int_of_str s =
     (case strip s of
        [] \<Rightarrow> None
      | c # cs \<Rightarrow>
          if c = CHR ''-'' then map_option (\<lambda>n. - int n) (parse_nat cs)
          else if c = CHR ''+'' then map_option int (parse_nat cs)
          else map_option int (parse_nat (c # cs)))"

text \<open>
  The message of the \<open>ValueError\<close> quotes the offending text as \<open>repr\<close> does: between
  apostrophes, or between double quotes when the text holds an apostrophe and no double
  quote. The escapes that \<open>repr\<close> writes for backslashes and control characters are not
  modelled.
\<close>

definition invalid_literal :: "string \<Rightarrow> string" where
  "invalid_literal s =
     ''invalid literal for int() with base 10: '' @
     (if CHR 0x27 \<in> set s \<and> CHR 0x22 \<notin> set s then [CHR 0x22] @ s @ [CHR 0x22]
      else [CHR 0x27] @ s @ [CHR 0x27])"

fun py_int :: "val \<Rightarrow> exn + int" where
  "py_int (VInt n) = Inr n"
| "py_int (VStr s) =
     (case int_of_str s of None \<Rightarrow> Inl (ValueError (invalid_literal s)) | Some n \<Rightarrow> Inr n)"
| "py_int VNone = Inl (TypeError ''int() argument must be a string, a bytes-like object or a real number, not NoneType'')"

text \<open>\<open>str(error)\<close>: the message of an exception (a \<open>KeyError\<close> shows its key quoted).\<close>

fun exn_str :: "exn \<Rightarrow> string" where
  "exn_str (KeyError k) = [CHR 0x27] @ k @ [CHR 0x27]"
| "exn_str (ValueError m) = m"
| "exn_str (TypeError m) = m"
| "exn_str EOFError = ''''"
| "exn_str (OperationalError m) = m"
| "exn_str (StatementError m) = m"

section \<open>main.py: print_results\<close>

text \<open>
  The body of the \<open>try\<close> block of \<open>print_results\<close>, for one \<open>result\<close>. The conditional
  expression reads \<open>result['DELAY']\<close> for its test first and once more for \<open>int\<close>.
\<close>

definition try_block :: "pydict \<Rightarrow> exn + (int \<times> val \<times> val \<times> val)" where
  "try_block result =
     bindE (getitem result ''DELAY'') (\<lambda>c.
     bindE (if truthy c then bindE (getitem result ''DELAY'') py_int else Inr 0) (\<lambda>delay.
     bindE (getitem result ''ORIGIN_AIRPORT'') (\<lambda>origin.
     bindE (getitem result ''DESTINATION_AIRPORT'') (\<lambda>dest.
     bindE (getitem result ''AIRLINE'') (\<lambda>airline.
     Inr (delay, origin, dest, airline))))))"

text \<open>The clause \<open>except (ValueError, sqlalchemy.exc.SQLAlchemyError)\<close>.\<close>

definition handled :: "exn \<Rightarrow> bool" where
  "handled e = (is_ValueError e \<or> is_SQLAlchemyError e)"

text \<open>The two f-strings of the final \<open>if\<close>; \<open>rid\<close> is \<open>result['ID']\<close>.\<close>

definition flight_line :: "val \<Rightarrow> val \<Rightarrow> val \<Rightarrow> val \<Rightarrow> string" where
  "flight_line rid origin dest airline =
     py_str rid @ ''. '' @ py_str origin @ '' -> '' @ py_str dest @ '' by '' @ py_str airline"

definition delayed_line :: "val \<Rightarrow> val \<Rightarrow> val \<Rightarrow> val \<Rightarrow> int \<Rightarrow> string" where
  "delayed_line rid origin dest airline delay =
     flight_line rid origin dest airline @ '', Delay: '' @ str_int delay @ '' Minutes''"

text \<open>
  The \<open>for\<close> loop. The result is the list of lines written to the console and the
  exception that leaves the function, if one does. \<open>return\<close> inside the handler ends
  the loop; an exception that the handler does not name leaves the function, and so
  does a \<open>KeyError\<close> of \<open>result['ID']\<close>, which is read outside the \<open>try\<close> block.
  \<open>print(a, b)\<close> writes a blank between its two arguments.
\<close>

fun print_loop :: "pydict list \<Rightarrow> string list \<times> exn option" where
  "print_loop [] = ([], None)"
| "print_loop (result # rest) =
     (case try_block result of
        Inl error \<Rightarrow>
          if handled error then ([''Error showing results: '' @ '' '' @ exn_str error], None)
          else ([], Some error)
      | Inr (delay, origin, dest, airline) \<Rightarrow>
          (case getitem result ''ID'' of
             Inl e \<Rightarrow> ([], Some e)
           | Inr rid \<Rightarrow>
               (let line = (if delay \<noteq> 0 \<and> delay > 0
                            then delayed_line rid origin dest airline delay
                            else flight_line rid origin dest airline)
                in (line # fst (print_loop rest), snd (print_loop rest)))))"

definition print_results :: "pydict list \<Rightarrow> string list \<times> exn option" where
  "print_results results =
     ((''Got '' @ str_int (int (length results)) @ '' results.'') # fst (print_loop results),
      snd (print_loop results))"

section \<open>The store: tables and the SELECT statements of data.py\<close>

text \<open>
  A table has its declared column names and its rows, one value per column. A database
  is a list of named tables. The schema is not part of the repository, so it is a
  parameter of everything below. SQLite compares identifiers without regard to ASCII
  case.
\<close>

datatype table = Table (columns: "string list") (rows: "val list list")

type_synonym database = "(string \<times> table) list"

definition upper_char :: "char \<Rightarrow> char" where
  "upper_char c =
     (case map_of
        [(CHR ''a'', CHR ''A''), (CHR ''b'', CHR ''B''), (CHR ''c'', CHR ''C''), (CHR ''d'', CHR ''D''),
         (CHR ''e'', CHR ''E''), (CHR ''f'', CHR ''F''), (CHR ''g'', CHR ''G''), (CHR ''h'', CHR ''H''),
         (CHR ''i'', CHR ''I''), (CHR ''j'', CHR ''J''), (CHR ''k'', CHR ''K''), (CHR ''l'', CHR ''L''),
         (CHR ''m'', CHR ''M''), (CHR ''n'', CHR ''N''), (CHR ''o'', CHR ''O''), (CHR ''p'', CHR ''P''),
         (CHR ''q'', CHR ''Q''), (CHR ''r'', CHR ''R''), (CHR ''s'', CHR ''S''), (CHR ''t'', CHR ''T''),
         (CHR ''u'', CHR ''U''), (CHR ''v'', CHR ''V''), (CHR ''w'', CHR ''W''), (CHR ''x'', CHR ''X''),
         (CHR ''y'', CHR ''Y''), (CHR ''z'', CHR ''Z'')] c of
        None \<Rightarrow> c
      | Some u \<Rightarrow> u)"

definition same_name :: "string \<Rightarrow> string \<Rightarrow> bool" where
  "same_name a b = (map upper_char a = map upper_char b)"

text \<open>
  The statements of the catalog, as syntax trees: a column reference \<open>t.c\<close>, a result
  column (\<open>t.*\<close>, \<open>t.c\<close> or \<open>t.c as a\<close>), one optional \<open>JOIN t ON l = r\<close>, and a \<open>WHERE\<close>
  clause that is a conjunction of tests \<open>t.c = :p\<close>.
\<close>

datatype colref = Col string string

datatype result_column = Star string | Expr colref | ExprAs colref string

datatype select =
  Select (result_columns: "result_column list") (from_table: string)
         (join_clause: "(string \<times> colref \<times> colref) option")
         (where_clause: "(colref \<times> string) list")

type_synonym params = "string \<rightharpoonup> val"

text \<open>The text of a statement, with single blanks between its parts.\<close>

fun render_colref :: "colref \<Rightarrow> string" where
  "render_colref (Col t c) = t @ ''.'' @ c"

fun render_result_column :: "result_column \<Rightarrow> string" where
  "render_result_column (Star t) = t @ ''.*''"
| "render_result_column (Expr c) = render_colref c"
| "render_result_column (ExprAs c a) = render_colref c @ '' as '' @ a"

fun sep_by :: "string \<Rightarrow> string list \<Rightarrow> string" where
  "sep_by s [] = []"
| "sep_by s [x] = x"
| "sep_by s (x # y # ys) = x @ s @ sep_by s (y # ys)"

fun render_condition :: "colref \<times> string \<Rightarrow> string" where
  "render_condition (c, p) = render_colref c @ '' = :'' @ p"

fun render :: "select \<Rightarrow> string" where
  "render (Select rcs t j w) =
     ''SELECT '' @ sep_by '', '' (map render_result_column rcs) @ '' FROM '' @ t @
     (case j of
        None \<Rightarrow> []
      | Some (jt, l, r) \<Rightarrow> '' JOIN '' @ jt @ '' ON '' @ render_colref l @ '' = '' @ render_colref r) @
     (if w = [] then [] else '' WHERE '' @ sep_by '' AND '' (map render_condition w))"

text \<open>Runs of blanks in a text count as one blank.\<close>

fun squeeze :: "string \<Rightarrow> string" where
  "squeeze [] = []"
| "squeeze [c] = [c]"
| "squeeze (c # d # cs) =
     (if c = CHR '' '' \<and> d = CHR '' '' then squeeze (d # cs) else c # squeeze (d # cs))"

subsection \<open>Evaluation of a SELECT\<close>

text \<open>
  A missing table or column is the driver's \<open>OperationalError\<close>; a placeholder without
  a value is SQLAlchemy's \<open>StatementError\<close>, raised before the statement reaches the
  driver.
\<close>

definition find_table :: "database \<Rightarrow> string \<Rightarrow> exn + table" where
  "find_table d t =
     (case find (\<lambda>(n, tb). same_name n t) d of
        None \<Rightarrow> Inl (OperationalError (''no such table: '' @ t))
      | Some (n, tb) \<Rightarrow> Inr tb)"

definition bind_param :: "params \<Rightarrow> string \<Rightarrow> exn + val" where
  "bind_param ps p =
     (case ps p of
        None \<Rightarrow> Inl (StatementError (''A value is required for bind parameter '' @ [CHR 0x27] @ p @ [CHR 0x27]))
      | Some v \<Rightarrow> Inr v)"

fun bind_params :: "params \<Rightarrow> (colref \<times> string) list \<Rightarrow> exn + (colref \<times> val) list" where
  "bind_params ps [] = Inr []"
| "bind_params ps ((c, p) # w) =
     bindE (bind_param ps p) (\<lambda>v. bindE (bind_params ps w) (\<lambda>rest. Inr ((c, v) # rest)))"

text \<open>
  The columns in scope of a statement: the columns of the \<open>FROM\<close> table followed by
  those of the joined table, each with the table name as the statement writes it. A
  row of the join is a row of the first table followed by a row of the second.
\<close>

type_synonym scope = "(string \<times> string) list"

definition table_scope :: "string \<Rightarrow> table \<Rightarrow> scope" where
  "table_scope t tb = map (\<lambda>c. (t, c)) (columns tb)"

fun position :: "scope \<Rightarrow> string \<Rightarrow> string \<Rightarrow> nat option" where
  "position [] t c = None"
| "position ((t', c') # sc) t c =
     (if same_name t' t \<and> same_name c' c then Some 0 else map_option Suc (position sc t c))"

fun resolve :: "scope \<Rightarrow> colref \<Rightarrow> exn + nat" where
  "resolve sc (Col t c) =
     (case position sc t c of
        None \<Rightarrow> Inl (OperationalError (''no such column: '' @ t @ ''.'' @ c))
      | Some i \<Rightarrow> Inr i)"

text \<open>The value of a row at a column; a stored row has a value for every column.\<close>

definition cell :: "val list \<Rightarrow> nat \<Rightarrow> val" where
  "cell r i = (if i < length r then r ! i else VNone)"

text \<open>
  The comparison \<open>=\<close> of SQL: a comparison with \<open>NULL\<close> is not true. Values are
  compared as they are stored. The declared types of the columns are not part of the
  repository, so the conversions of column affinity are not modelled: a text and an
  integer never compare equal here, and what compares equal here does so in the store.
\<close>

definition sql_eq :: "val \<Rightarrow> val \<Rightarrow> bool" where
  "sql_eq a b = (a \<noteq> VNone \<and> b \<noteq> VNone \<and> a = b)"

definition joined_rows :: "table \<Rightarrow> table \<Rightarrow> nat \<Rightarrow> nat \<Rightarrow> val list list" where
  "joined_rows ft jt li ri =
     concat (map (\<lambda>f. map (\<lambda>a. f @ a)
                        (filter (\<lambda>a. sql_eq (cell (f @ a) li) (cell (f @ a) ri)) (rows jt)))
                 (rows ft))"

definition source_rows ::
  "database \<Rightarrow> string \<Rightarrow> (string \<times> colref \<times> colref) option \<Rightarrow> exn + (scope \<times> val list list)" where
  "source_rows d t j =
     bindE (find_table d t) (\<lambda>ft.
       case j of
         None \<Rightarrow> Inr (table_scope t ft, rows ft)
       | Some (jt, l, r) \<Rightarrow>
           bindE (find_table d jt) (\<lambda>jtb.
           bindE (resolve (table_scope t ft @ table_scope jt jtb) l) (\<lambda>li.
           bindE (resolve (table_scope t ft @ table_scope jt jtb) r) (\<lambda>ri.
             Inr (table_scope t ft @ table_scope jt jtb, joined_rows ft jtb li ri)))))"

fun resolve_conditions :: "scope \<Rightarrow> (colref \<times> val) list \<Rightarrow> exn + (nat \<times> val) list" where
  "resolve_conditions sc [] = Inr []"
| "resolve_conditions sc ((c, v) # w) =
     bindE (resolve sc c) (\<lambda>i. bindE (resolve_conditions sc w) (\<lambda>rest. Inr ((i, v) # rest)))"

definition satisfies :: "(nat \<times> val) list \<Rightarrow> val list \<Rightarrow> bool" where
  "satisfies w r = list_all (\<lambda>(i, v). sql_eq (cell r i) v) w"

text \<open>
  The result columns, each with the name the cursor reports: the alias where there is
  one, the declared name of the column otherwise.
\<close>

fun star_columns :: "scope \<Rightarrow> string \<Rightarrow> nat \<Rightarrow> (string \<times> nat) list" where
  "star_columns [] t i = []"
| "star_columns ((t', c') # sc) t i =
     (if same_name t' t then (c', i) # star_columns sc t (Suc i) else star_columns sc t (Suc i))"

fun expand_column :: "scope \<Rightarrow> result_column \<Rightarrow> exn + (string \<times> nat) list" where
  "expand_column sc (Star t) =
     (if star_columns sc t 0 = [] then Inl (OperationalError (''no such table: '' @ t))
      else Inr (star_columns sc t 0))"
| "expand_column sc (Expr c) =
     bindE (resolve sc c) (\<lambda>i. Inr [(if i < length sc then snd (sc ! i) else [], i)])"
| "expand_column sc (ExprAs c a) = bindE (resolve sc c) (\<lambda>i. Inr [(a, i)])"

fun expand_columns :: "scope \<Rightarrow> result_column list \<Rightarrow> exn + (string \<times> nat) list" where
  "expand_columns sc [] = Inr []"
| "expand_columns sc (rc # rcs) =
     bindE (expand_column sc rc) (\<lambda>xs. bindE (expand_columns sc rcs) (\<lambda>ys. Inr (xs @ ys)))"

definition project :: "(string \<times> nat) list \<Rightarrow> val list \<Rightarrow> (string \<times> val) list" where
  "project proj r = map (\<lambda>(n, i). (n, cell r i)) proj"

text \<open>
  \<open>conn.execute(text(query), params)\<close> on a database: the rows of the result, each a
  list of named values in the order of the result columns. The names of the result
  columns are resolved before those of the \<open>WHERE\<close> clause. The order of the rows is
  the store's to choose; here it is the order of the rows of the first table, and the
  properties below speak of the rows as a set.
\<close>

fun run_select :: "database \<Rightarrow> select \<Rightarrow> params \<Rightarrow> exn + (string \<times> val) list list" where
  "run_select d (Select rcs t j w) ps =
     bindE (bind_params ps w) (\<lambda>bound.
     bindE (source_rows d t j) (\<lambda>(sc, rs).
     bindE (expand_columns sc rcs) (\<lambda>proj.
     bindE (resolve_conditions sc bound) (\<lambda>conds.
       Inr (map (project proj) (filter (satisfies conds) rs))))))"

section \<open>data.py: the query catalog\<close>

text \<open>
  The four module constants of \<open>data.py\<close>, as the texts the Python literals denote (a
  backslash at the end of a line joins it to the next one, whose indentation stays in
  the text), and as syntax trees.
\<close>

definition QUERY_FLIGHT_BY_ID_text :: string where
  "QUERY_FLIGHT_BY_ID_text =
     ''SELECT flights.*, airlines.airline, flights.ID as FLIGHT_ID,     flights.DEPARTURE_DELAY as DELAY FROM flights         JOIN airlines ON flights.airline = airlines.id             WHERE flights.ID = :id''"

definition QUERY_FLIGHT_BY_DATE_text :: string where
  "QUERY_FLIGHT_BY_DATE_text =
     ''SELECT flights.*, flights.ID as FLIGHT_ID,     flights.ORIGIN_AIRPORT, flights.DESTINATION_AIRPORT, flights.DEPARTURE_DELAY as DELAY         FROM flights WHERE flights.DAY = :day             AND flights.MONTH = :month AND flights.YEAR = :year''"

definition QUERY_FLIGHT_BY_AIRPORT_text :: string where
  "QUERY_FLIGHT_BY_AIRPORT_text =
     ''SELECT flights.*, flights.ID as FLIGHT_ID,     flights.ORIGIN_AIRPORT, flights.DESTINATION_AIRPORT, airlines.AIRLINE, flights.DEPARTURE_DELAY as DELAY         FROM flights JOIN airlines ON flights.AIRLINE = airlines.ID             WHERE flights.ORIGIN_AIRPORT = :origin_airport''"

definition QUERY_FLIGHT_BY_AIRLINE_text :: string where
  "QUERY_FLIGHT_BY_AIRLINE_text =
     ''SELECT airlines.*, airlines.ID as AIRLINE_ID,     flights.ORIGIN_AIRPORT, flights.DESTINATION_AIRPORT, airlines.AIRLINE, flights.DEPARTURE_DELAY as DELAY         FROM flights JOIN airlines ON  airlines.ID = flights.AIRLINE             WHERE airlines.AIRLINE = :airline''"

definition QUERY_FLIGHT_BY_ID :: select where
  "QUERY_FLIGHT_BY_ID =
     Select [Star ''flights'', Expr (Col ''airlines'' ''airline''),
             ExprAs (Col ''flights'' ''ID'') ''FLIGHT_ID'',
             ExprAs (Col ''flights'' ''DEPARTURE_DELAY'') ''DELAY'']
            ''flights''
            (Some (''airlines'', Col ''flights'' ''airline'', Col ''airlines'' ''id''))
            [(Col ''flights'' ''ID'', ''id'')]"

definition QUERY_FLIGHT_BY_DATE :: select where
  "QUERY_FLIGHT_BY_DATE =
     Select [Star ''flights'', ExprAs (Col ''flights'' ''ID'') ''FLIGHT_ID'',
             Expr (Col ''flights'' ''ORIGIN_AIRPORT''),
             Expr (Col ''flights'' ''DESTINATION_AIRPORT''),
             ExprAs (Col ''flights'' ''DEPARTURE_DELAY'') ''DELAY'']
            ''flights''
            None
            [(Col ''flights'' ''DAY'', ''day''), (Col ''flights'' ''MONTH'', ''month''),
             (Col ''flights'' ''YEAR'', ''year'')]"

definition QUERY_FLIGHT_BY_AIRPORT :: select where
  "QUERY_FLIGHT_BY_AIRPORT =
     Select [Star ''flights'', ExprAs (Col ''flights'' ''ID'') ''FLIGHT_ID'',
             Expr (Col ''flights'' ''ORIGIN_AIRPORT''),
             Expr (Col ''flights'' ''DESTINATION_AIRPORT''),
             Expr (Col ''airlines'' ''AIRLINE''),
             ExprAs (Col ''flights'' ''DEPARTURE_DELAY'') ''DELAY'']
            ''flights''
            (Some (''airlines'', Col ''flights'' ''AIRLINE'', Col ''airlines'' ''ID''))
            [(Col ''flights'' ''ORIGIN_AIRPORT'', ''origin_airport'')]"

definition QUERY_FLIGHT_BY_AIRLINE :: select where
  "QUERY_FLIGHT_BY_AIRLINE =
     Select [Star ''airlines'', ExprAs (Col ''airlines'' ''ID'') ''AIRLINE_ID'',
             Expr (Col ''flights'' ''ORIGIN_AIRPORT''),
             Expr (Col ''flights'' ''DESTINATION_AIRPORT''),
             Expr (Col ''airlines'' ''AIRLINE''),
             ExprAs (Col ''flights'' ''DEPARTURE_DELAY'') ''DELAY'']
            ''flights''
            (Some (''airlines'', Col ''airlines'' ''ID'', Col ''flights'' ''AIRLINE''))
            [(Col ''airlines'' ''AIRLINE'', ''airline'')]"

section \<open>data.py: class FlightData\<close>

text \<open>
  The state behind \<open>self._engine\<close>: the database the URI leads to (\<open>None\<close> when it
  cannot be opened), the number of connections that are checked out, and the trace of
  what the engine was asked to do.
\<close>

datatype event = Connect | Execute select params | Close

record engine =
  store :: "database option"
  checked_out :: nat
  events :: "event list"

text \<open>
  \<open>self._engine.connect()\<close> checks a connection out, or raises when the database
  cannot be opened. Leaving the \<open>with\<close> block closes the connection.
\<close>

definition connect :: "engine \<Rightarrow> exn + engine" where
  "connect e =
     (case store e of
        None \<Rightarrow> Inl (OperationalError ''unable to open database file'')
      | Some d \<Rightarrow> Inr (e\<lparr>checked_out := checked_out e + 1, events := events e @ [Connect]\<rparr>))"

definition close :: "engine \<Rightarrow> engine" where
  "close e = e\<lparr>checked_out := checked_out e - 1, events := events e @ [Close]\<rparr>"

definition conn_execute ::
  "engine \<Rightarrow> select \<Rightarrow> params \<Rightarrow> (exn + (string \<times> val) list list) \<times> engine" where
  "conn_execute e query ps =
     (case store e of
        None \<Rightarrow> (Inl (OperationalError ''unable to open database file''), e)
      | Some d \<Rightarrow> (run_select d query ps, e\<lparr>events := events e @ [Execute query ps]\<rparr>))"

text \<open>
  \<open>row._asdict()\<close>: the \<open>dict\<close> of a result row. Where two result columns carry one
  name, the later one is the value of the key.
\<close>

definition asdict :: "(string \<times> val) list \<Rightarrow> pydict" where
  "asdict row = map_of (rev row)"

text \<open>
  \<open>FlightData._execute_query\<close>. The body of the \<open>with\<close> block either returns the
  records or is left by the exception of \<open>conn.execute\<close>; the connection is closed on
  both ways out, and the exception goes on to the caller: there is no handler.
\<close>

definition execute_query ::
  "engine \<Rightarrow> select \<Rightarrow> params \<Rightarrow> (exn + pydict list) \<times> engine" where
  "execute_query self query ps =
     (case connect self of
        Inl e \<Rightarrow> (Inl e, self)
      | Inr conn \<Rightarrow>
          (case conn_execute conn query ps of
             (Inl e, conn') \<Rightarrow> (Inl e, close conn')
           | (Inr result, conn') \<Rightarrow> (Inr (map asdict result), close conn')))"

definition get_delayed_flights_by_airline :: "engine \<Rightarrow> val \<Rightarrow> (exn + pydict list) \<times> engine" where
  "get_delayed_flights_by_airline self origin_airport =
     execute_query self QUERY_FLIGHT_BY_AIRLINE [''airline'' \<mapsto> origin_airport]"

definition get_delayed_flights_by_airport :: "engine \<Rightarrow> val \<Rightarrow> (exn + pydict list) \<times> engine" where
  "get_delayed_flights_by_airport self origin_airport =
     execute_query self QUERY_FLIGHT_BY_AIRPORT [''origin_airport'' \<mapsto> origin_airport]"

definition get_flight_by_id :: "engine \<Rightarrow> val \<Rightarrow> (exn + pydict list) \<times> engine" where
  "get_flight_by_id self flight_id =
     execute_query self QUERY_FLIGHT_BY_ID [''id'' \<mapsto> flight_id]"

definition get_flights_by_date :: "engine \<Rightarrow> val \<Rightarrow> val \<Rightarrow> val \<Rightarrow> (exn + pydict list) \<times> engine" where
  "get_flights_by_date self day month year =
     execute_query self QUERY_FLIGHT_BY_DATE [''day'' \<mapsto> day, ''month'' \<mapsto> month, ''year'' \<mapsto> year]"

section \<open>main.py: the airport prompt\<close>

definition IATA_LENGTH :: nat where
  "IATA_LENGTH = 3"

text \<open>
  \<open>str.isalpha\<close>: at least one character, and every character a letter. Below 256 the
  letters are A to Z, a to z, the two ordinal indicators, the micro sign and the
  accented letters of Latin-1.
\<close>

definition is_alpha_char :: "char \<Rightarrow> bool" where
  "is_alpha_char c =
     (let n = (of_char c :: nat) in
        (65 \<le> n \<and> n \<le> 90) \<or> (97 \<le> n \<and> n \<le> 122) \<or> n = 170 \<or> n = 181 \<or> n = 186 \<or>
        (192 \<le> n \<and> n \<le> 214) \<or> (216 \<le> n \<and> n \<le> 246) \<or> (248 \<le> n \<and> n \<le> 255))"

definition isalpha :: "string \<Rightarrow> bool" where
  "isalpha s = (s \<noteq> [] \<and> list_all is_alpha_char s)"

text \<open>
  The \<open>while not valid\<close> loop of \<open>delayed_flights_by_airport\<close>, over the lines that the
  console still holds: \<open>input\<close> writes its prompt and takes the next line, and raises
  \<open>EOFError\<close> when there is none. The result is the outcome of the loop, the lines not
  yet read and the prompts written.
\<close>

definition airport_prompt :: string where
  "airport_prompt = ''Enter origin airport IATA code: ''"

fun airport_input_loop :: "string list \<Rightarrow> (exn + string) \<times> string list \<times> string list" where
  "airport_input_loop [] = (Inl EOFError, [], [airport_prompt])"
| "airport_input_loop (airport_input # rest) =
     (if isalpha airport_input \<and> length airport_input = IATA_LENGTH
      then (Inr airport_input, rest, [airport_prompt])
      else (case airport_input_loop rest of
              (r, rest', out) \<Rightarrow> (r, rest', airport_prompt # out)))"

text \<open>
  \<open>delayed_flights_by_airport(data_manager)\<close>: the exception that leaves the function
  (if any), the engine afterwards, the lines not yet read and what was written.
\<close>

definition delayed_flights_by_airport ::
  "engine \<Rightarrow> string list \<Rightarrow> exn option \<times> engine \<times> string list \<times> string list" where
  "delayed_flights_by_airport data_manager inputs =
     (case airport_input_loop inputs of
        (Inl e, rest, out) \<Rightarrow> (Some e, data_manager, rest, out)
      | (Inr airport_input, rest, out) \<Rightarrow>
          (case get_delayed_flights_by_airport data_manager (VStr airport_input) of
             (Inl e, dm) \<Rightarrow> (Some e, dm, rest, out)
           | (Inr results, dm) \<Rightarrow>
               (snd (print_results results), dm, rest, out @ fst (print_results results))))"

section \<open>Notions used to state the properties\<close>

text \<open>
  The scope of a statement that joins \<open>flights\<close> with \<open>airlines\<close>, the value of a joined
  row at a column, and the record that the result columns of a statement make of a
  row.
\<close>

definition join_scope :: "table \<Rightarrow> table \<Rightarrow> scope" where
  "join_scope ft at = table_scope ''flights'' ft @ table_scope ''airlines'' at"


definition record_of :: "scope \<Rightarrow> result_column list \<Rightarrow> val list \<Rightarrow> pydict" where
  "record_of sc rcs r =
     (case expand_columns sc rcs of Inl e \<Rightarrow> Map.empty | Inr proj \<Rightarrow> asdict (project proj r))"

text \<open>A statement projects column \<open>c\<close> of table \<open>t\<close> when a result column names it or is \<open>t.*\<close>.\<close>

fun names_column :: "string \<Rightarrow> string \<Rightarrow> result_column \<Rightarrow> bool" where
  "names_column t c (Star t') = same_name t' t"
| "names_column t c (Expr (Col t' c')) = (same_name t' t \<and> same_name c' c)"
| "names_column t c (ExprAs (Col t' c') a) = (same_name t' t \<and> same_name c' c)"

definition projects_column :: "select \<Rightarrow> string \<Rightarrow> string \<Rightarrow> bool" where
  "projects_column q t c = list_ex (names_column t c) (result_columns q)"



text \<open>The placeholders of a statement.\<close>

definition placeholders :: "select \<Rightarrow> string list" where
  "placeholders q = map snd (where_clause q)"

text \<open>An airport code as the specification words it: exactly three alphabetic characters.\<close>

definition three_letters :: "string \<Rightarrow> bool" where
  "three_letters s = (length s = 3 \<and> list_all is_alpha_char s)"



text \<open>
  The four convenience operations as the specification words them: each names one
  entry of the catalog and binds its own arguments to the parameters of that entry.
\<close>

datatype operation =
    By_flight_id val
  | By_date val val val
  | By_origin_airport val
  | By_airline val

fun spec_template :: "operation \<Rightarrow> select" where
  "spec_template (By_flight_id flight_id) = QUERY_FLIGHT_BY_ID"
| "spec_template (By_date day month year) = QUERY_FLIGHT_BY_DATE"
| "spec_template (By_origin_airport origin_airport) = QUERY_FLIGHT_BY_AIRPORT"
| "spec_template (By_airline airline) = QUERY_FLIGHT_BY_AIRLINE"

fun spec_binding :: "operation \<Rightarrow> (string \<times> val) list" where
  "spec_binding (By_flight_id flight_id) = [(''id'', flight_id)]"
| "spec_binding (By_date day month year) = [(''day'', day), (''month'', month), (''year'', year)]"
| "spec_binding (By_origin_airport origin_airport) = [(''origin_airport'', origin_airport)]"
| "spec_binding (By_airline airline) = [(''airline'', airline)]"

definition spec_operation :: "engine \<Rightarrow> operation \<Rightarrow> (exn + pydict list) \<times> engine" where
  "spec_operation self op = execute_query self (spec_template op) (map_of (spec_binding op))"

text \<open>The method of \<open>FlightData\<close> that stands for an operation.\<close>

fun method_of :: "engine \<Rightarrow> operation \<Rightarrow> (exn + pydict list) \<times> engine" where
  "method_of self (By_flight_id flight_id) = get_flight_by_id self flight_id"
| "method_of self (By_date day month year) = get_flights_by_date self day month year"
| "method_of self (By_origin_airport origin_airport) = get_delayed_flights_by_airport self origin_airport"
| "method_of self (By_airline airline) = get_delayed_flights_by_airline self airline"

subsection \<open>A small database\<close>

text \<open>
  Three flights and two airlines, in the shape the statements expect: \<open>flights.AIRLINE\<close>
  holds the \<open>ID\<close> of an airline. Flight 119 has no recorded delay, flight 121 a delay
  of 0.
\<close>

definition sample_flights :: table where
  "sample_flights =
     Table [''ID'', ''YEAR'', ''MONTH'', ''DAY'', ''AIRLINE'', ''ORIGIN_AIRPORT'',
            ''DESTINATION_AIRPORT'', ''DEPARTURE_DELAY'']
       [[VInt 119, VInt 2015, VInt 1, VInt 14, VInt 7, VStr ''SEA'', VStr ''LAX'', VNone],
        [VInt 120, VInt 2015, VInt 1, VInt 14, VInt 7, VStr ''SEA'', VStr ''JFK'', VInt 45],
        [VInt 121, VInt 2015, VInt 1, VInt 15, VInt 7, VStr ''SEA'', VStr ''SFO'', VInt 0]]"

definition sample_airlines :: table where
  "sample_airlines =
     Table [''ID'', ''AIRLINE''] [[VInt 7, VStr ''Delta''], [VInt 8, VStr ''JetBlue'']]"

definition sample_db :: database where
  "sample_db = [(''flights'', sample_flights), (''airlines'', sample_airlines)]"

definition sample_engine :: engine where
  "sample_engine = \<lparr>store = Some sample_db, checked_out = 0, events = []\<rparr>"

text \<open>An engine on a database file that holds no table yet.\<close>

definition empty_engine :: engine where
  "empty_engine = \<lparr>store = Some [], checked_out = 0, events = []\<rparr>"




section \<open>Properties of FlightData._execute_query\<close>

lemma fst_execute_query:
  "store self = Some d \<Longrightarrow>
   fst (execute_query self query ps) =
     (case run_select d query ps of Inl e \<Rightarrow> Inl e | Inr result \<Rightarrow> Inr (map asdict result))"
  by (simp add: execute_query_def connect_def conn_execute_def split: sum.splits)

lemma snd_execute_query:
  "snd (execute_query self query ps) =
     (case store self of
        None \<Rightarrow> self
      | Some d \<Rightarrow> self\<lparr>events := events self @ [Connect, Execute query ps, Close]\<rparr>)"
  by (simp add: execute_query_def connect_def conn_execute_def close_def
      split: sum.splits option.splits)

lemma run_select_empty_db:
  "run_select [] QUERY_FLIGHT_BY_ID [''id'' \<mapsto> VInt 119] =
     Inl (OperationalError ''no such table: flights'')"
  by (simp add: QUERY_FLIGHT_BY_ID_def bindE_def bind_param_def source_rows_def find_table_def)

text \<open>
  C1. The docstring of \<open>_execute_query\<close> promises that an exception of the store is
  printed and an empty list returned. The method has no handler: when the statement
  raises, the exception is the outcome of the call. On a database without a \<open>flights\<close>
  table, \<open>get_flight_by_id(119)\<close> raises \<open>OperationalError\<close>.
\<close>

theorem execute_query_raises:
  "store self = Some d \<Longrightarrow> run_select d query ps = Inl e \<Longrightarrow>
   fst (execute_query self query ps) = Inl e"
  by (simp add: fst_execute_query)

theorem execute_query_raises_witness:
  "store empty_engine = Some [] \<and>
   run_select [] QUERY_FLIGHT_BY_ID [''id'' \<mapsto> VInt 119] =
     Inl (OperationalError ''no such table: flights'') \<and>
   fst (get_flight_by_id empty_engine (VInt 119)) =
     Inl (OperationalError ''no such table: flights'')"
  using execute_query_raises [of empty_engine "[]" QUERY_FLIGHT_BY_ID "[''id'' \<mapsto> VInt 119]"
      "OperationalError ''no such table: flights''"]
  by (simp add: run_select_empty_db empty_engine_def get_flight_by_id_def)

lemma run_select_Inr:
  "bind_params ps w = Inr bound \<Longrightarrow> source_rows d t j = Inr (sc, rs) \<Longrightarrow>
   resolve_conditions sc bound = Inr conds \<Longrightarrow> expand_columns sc rcs = Inr proj \<Longrightarrow>
   run_select d (Select rcs t j w) ps = Inr (map (project proj) (filter (satisfies conds) rs))"
  by (simp add: bindE_def)

lemma where_by_id: "where_clause QUERY_FLIGHT_BY_ID = [(Col ''flights'' ''ID'', ''id'')]"
  by (simp add: QUERY_FLIGHT_BY_ID_def)

lemma from_by_id: "from_table QUERY_FLIGHT_BY_ID = ''flights''"
  by (simp add: QUERY_FLIGHT_BY_ID_def)

lemma join_by_id:
  "join_clause QUERY_FLIGHT_BY_ID =
     Some (''airlines'', Col ''flights'' ''airline'', Col ''airlines'' ''id'')"
  by (simp add: QUERY_FLIGHT_BY_ID_def)

lemma sample_source_rows:
  "source_rows sample_db ''flights''
     (Some (''airlines'', Col ''flights'' ''airline'', Col ''airlines'' ''id'')) =
   Inr (join_scope sample_flights sample_airlines, joined_rows sample_flights sample_airlines 4 8)"
  by code_simp

lemma sample_conds:
  "resolve_conditions (join_scope sample_flights sample_airlines) [(Col ''flights'' ''ID'', VInt 999)] =
     Inr [(0, VInt 999)]"
  by code_simp

lemma sample_proj:
  "expand_columns (join_scope sample_flights sample_airlines) (result_columns QUERY_FLIGHT_BY_ID) =
     Inr [(''ID'', 0), (''YEAR'', 1), (''MONTH'', 2), (''DAY'', 3), (''AIRLINE'', 4),
          (''ORIGIN_AIRPORT'', 5), (''DESTINATION_AIRPORT'', 6), (''DEPARTURE_DELAY'', 7),
          (''AIRLINE'', 9), (''FLIGHT_ID'', 0), (''DELAY'', 7)]"
  by code_simp

lemma sample_no_match:
  "list_all (\<lambda>r. \<not> satisfies [(0, VInt 999)] r) (joined_rows sample_flights sample_airlines 4 8)"
  by code_simp

text \<open>
  C5. When the statement executes (its placeholders are bound, its tables and columns
  exist) and no row of its source satisfies the \<open>WHERE\<close> clause, \<open>_execute_query\<close>
  returns the empty list, as a value.
\<close>

theorem execute_query_no_match:
  assumes "store self = Some d"
    and "bind_params ps (where_clause query) = Inr bound"
    and "source_rows d (from_table query) (join_clause query) = Inr (sc, rs)"
    and "resolve_conditions sc bound = Inr conds"
    and "expand_columns sc (result_columns query) = Inr proj"
    and "\<forall>r \<in> set rs. \<not> satisfies conds r"
  shows "fst (execute_query self query ps) = Inr []"
proof -
  have "filter (satisfies conds) rs = []"
    using assms(6) by (simp add: filter_empty_conv)
  moreover have "run_select d query ps = Inr (map (project proj) (filter (satisfies conds) rs))"
    using assms(2-5) by (cases query) (simp add: bindE_def)
  ultimately show ?thesis
    using assms(1) by (simp add: fst_execute_query)
qed

theorem execute_query_no_match_witness:
  "fst (get_flight_by_id sample_engine (VInt 999)) = Inr []"
proof -
  have 1: "store sample_engine = Some sample_db"
    by (simp add: sample_engine_def)
  have 2: "bind_params [''id'' \<mapsto> VInt 999] (where_clause QUERY_FLIGHT_BY_ID) =
      Inr [(Col ''flights'' ''ID'', VInt 999)]"
    by (simp add: where_by_id bindE_def bind_param_def)
  have 3: "source_rows sample_db (from_table QUERY_FLIGHT_BY_ID) (join_clause QUERY_FLIGHT_BY_ID) =
      Inr (join_scope sample_flights sample_airlines, joined_rows sample_flights sample_airlines 4 8)"
    by (simp only: from_by_id join_by_id sample_source_rows)
  have 6: "\<forall>r \<in> set (joined_rows sample_flights sample_airlines 4 8). \<not> satisfies [(0, VInt 999)] r"
    using sample_no_match by (simp only: list_all_iff)
  show ?thesis
    using execute_query_no_match [OF 1 2 3 sample_conds sample_proj 6]
    by (simp only: get_flight_by_id_def)
qed

text \<open>
  C10. \<open>_execute_query\<close> checks one connection out at its start and closes it on the
  way out, whether the statement returned rows or raised: the number of connections
  checked out is the same after the call as before it, and the call adds the events
  \<open>Connect\<close>, \<open>Execute\<close>, \<open>Close\<close> to the trace. When the database cannot be opened,
  no connection is acquired and the call raises at once.
\<close>

theorem connection_released:
  "checked_out (snd (execute_query self query ps)) = checked_out self \<and>
   events (snd (execute_query self query ps)) =
     events self @ (if store self = None then [] else [Connect, Execute query ps, Close]) \<and>
   (case connect self of
      Inl e \<Rightarrow> execute_query self query ps = (Inl e, self)
    | Inr conn \<Rightarrow>
        checked_out conn = checked_out self + 1 \<and>
        snd (execute_query self query ps) = close (snd (conn_execute conn query ps)) \<and>
        checked_out (snd (conn_execute conn query ps)) = checked_out self + 1)"
  by (auto simp: execute_query_def connect_def conn_execute_def close_def
      split: sum.splits option.splits)

lemma store_execute_query: "store (snd (execute_query self query ps)) = store self"
  by (simp add: snd_execute_query split: option.splits)

lemma render_by_id: "render QUERY_FLIGHT_BY_ID = squeeze QUERY_FLIGHT_BY_ID_text"
  by (simp add: QUERY_FLIGHT_BY_ID_def QUERY_FLIGHT_BY_ID_text_def)

lemma render_by_date: "render QUERY_FLIGHT_BY_DATE = squeeze QUERY_FLIGHT_BY_DATE_text"
  by (simp add: QUERY_FLIGHT_BY_DATE_def QUERY_FLIGHT_BY_DATE_text_def)

lemma render_by_airport: "render QUERY_FLIGHT_BY_AIRPORT = squeeze QUERY_FLIGHT_BY_AIRPORT_text"
  by (simp add: QUERY_FLIGHT_BY_AIRPORT_def QUERY_FLIGHT_BY_AIRPORT_text_def)

lemma render_by_airline: "render QUERY_FLIGHT_BY_AIRLINE = squeeze QUERY_FLIGHT_BY_AIRLINE_text"
  by (simp add: QUERY_FLIGHT_BY_AIRLINE_def QUERY_FLIGHT_BY_AIRLINE_text_def)

text \<open>
  C8. Every operation of the gateway leaves the database as it found it. The four
  statements it executes are, up to runs of blanks, the texts of the module constants,
  and each text is a single \<open>SELECT\<close> statement.
\<close>

theorem gateway_read_only:
  "store (snd (method_of self op)) = store self \<and>
   store (snd (execute_query self query ps)) = store self \<and>
   render QUERY_FLIGHT_BY_ID = squeeze QUERY_FLIGHT_BY_ID_text \<and>
   render QUERY_FLIGHT_BY_DATE = squeeze QUERY_FLIGHT_BY_DATE_text \<and>
   render QUERY_FLIGHT_BY_AIRPORT = squeeze QUERY_FLIGHT_BY_AIRPORT_text \<and>
   render QUERY_FLIGHT_BY_AIRLINE = squeeze QUERY_FLIGHT_BY_AIRLINE_text \<and>
   take 7 QUERY_FLIGHT_BY_ID_text = ''SELECT '' \<and> CHR '';'' \<notin> set QUERY_FLIGHT_BY_ID_text \<and>
   take 7 QUERY_FLIGHT_BY_DATE_text = ''SELECT '' \<and> CHR '';'' \<notin> set QUERY_FLIGHT_BY_DATE_text \<and>
   take 7 QUERY_FLIGHT_BY_AIRPORT_text = ''SELECT '' \<and> CHR '';'' \<notin> set QUERY_FLIGHT_BY_AIRPORT_text \<and>
   take 7 QUERY_FLIGHT_BY_AIRLINE_text = ''SELECT '' \<and> CHR '';'' \<notin> set QUERY_FLIGHT_BY_AIRLINE_text"
proof -
  have "store (snd (method_of self op)) = store self"
    by (cases op)
       (simp_all add: store_execute_query get_flight_by_id_def get_flights_by_date_def
          get_delayed_flights_by_airport_def get_delayed_flights_by_airline_def)
  then show ?thesis
    by (simp add: store_execute_query render_by_id render_by_date render_by_airport
        render_by_airline)
       (simp add: QUERY_FLIGHT_BY_ID_text_def QUERY_FLIGHT_BY_DATE_text_def
        QUERY_FLIGHT_BY_AIRPORT_text_def QUERY_FLIGHT_BY_AIRLINE_text_def)
qed

text \<open>
  C7. Each of the four convenience methods is \<open>_execute_query\<close> on its own entry of the
  catalog with the one parameter map that binds its arguments, and that map binds
  exactly the placeholders of the entry.
\<close>

theorem convenience_operations:
  "method_of self op = spec_operation self op \<and>
   set (map fst (spec_binding op)) = set (placeholders (spec_template op)) \<and>
   distinct (map fst (spec_binding op))"
  by (cases op)
     (auto simp: spec_operation_def get_flight_by_id_def get_flights_by_date_def
        get_delayed_flights_by_airport_def get_delayed_flights_by_airline_def
        placeholders_def QUERY_FLIGHT_BY_ID_def QUERY_FLIGHT_BY_DATE_def
        QUERY_FLIGHT_BY_AIRPORT_def QUERY_FLIGHT_BY_AIRLINE_def fun_upd_twist
        intro!: arg_cong [where f = "execute_query self QUERY_FLIGHT_BY_DATE"])

section \<open>Properties of print_results\<close>

lemma str_int_1: "str_int 1 = ''1''"
  by (simp add: str_int_def digits_of.simps)

lemma str_int_45: "str_int 45 = ''45''"
  by (simp add: str_int_def digits_of.simps)

lemma str_int_120: "str_int 120 = ''120''"
  by (simp add: str_int_def digits_of.simps)

text \<open>
  C2. A record that lacks one of \<open>DELAY\<close>, \<open>ORIGIN_AIRPORT\<close>, \<open>DESTINATION_AIRPORT\<close> and
  \<open>AIRLINE\<close> (and whose \<open>DELAY\<close>, if it is a text, converts) makes \<open>print_results\<close>
  raise \<open>KeyError\<close> after the header line: the records are plain \<open>dict\<close>s and the
  handler names \<open>ValueError\<close> and \<open>SQLAlchemyError\<close> only. Nothing is reported, and the
  exception reaches the caller.
\<close>

theorem print_results_missing_field_raises:
  assumes "k \<in> {''DELAY'', ''ORIGIN_AIRPORT'', ''DESTINATION_AIRPORT'', ''AIRLINE''}"
    and "result k = None"
    and "\<forall>s. result ''DELAY'' = Some (VStr s) \<longrightarrow> s = [] \<or> int_of_str s \<noteq> None"
  shows "\<exists>k'. print_results (result # rest) =
           ([''Got '' @ str_int (int (Suc (length rest))) @ '' results.''], Some (KeyError k'))"
proof -
  have "\<exists>k'. try_block result = Inl (KeyError k')"
  proof (cases "result ''DELAY''")
    case None
    then show ?thesis by (simp add: try_block_def getitem_def bindE_def)
  next
    case (Some d)
    have "\<exists>n. (if truthy d then bindE (getitem result ''DELAY'') py_int else Inr 0) = Inr n"
      using Some assms(3) by (cases d) (auto simp: getitem_def bindE_def split: option.splits)
    then obtain n
      where n: "(if truthy d then bindE (getitem result ''DELAY'') py_int else Inr 0) = Inr n" ..
    from assms(1,2) Some
    have "result ''ORIGIN_AIRPORT'' = None \<or> result ''DESTINATION_AIRPORT'' = None \<or>
          result ''AIRLINE'' = None"
      by auto
    then show ?thesis
      using Some n by (auto simp: try_block_def getitem_def bindE_def split: option.splits)
  qed
  then obtain k' where "try_block result = Inl (KeyError k')" ..
  then have "print_loop (result # rest) = ([], Some (KeyError k'))"
    by (simp add: handled_def)
  then show ?thesis by (auto simp: print_results_def)
qed

theorem print_results_missing_field_raises_witness:
  "\<exists>k'. print_results [[''ID'' \<mapsto> VInt 1, ''ORIGIN_AIRPORT'' \<mapsto> VStr ''SEA'',
                          ''DESTINATION_AIRPORT'' \<mapsto> VStr ''LAX'', ''AIRLINE'' \<mapsto> VStr ''Delta'']] =
          ([''Got 1 results.''], Some (KeyError k'))"
  using print_results_missing_field_raises [of "''DELAY''"
      "[''ID'' \<mapsto> VInt 1, ''ORIGIN_AIRPORT'' \<mapsto> VStr ''SEA'',
        ''DESTINATION_AIRPORT'' \<mapsto> VStr ''LAX'', ''AIRLINE'' \<mapsto> VStr ''Delta'']" "[]"]
  by (simp add: str_int_1)



section \<open>Properties of the catalog\<close>





















lemma by_date_ignores_airlines:
  "find_table d ''flights'' = Inr ft \<Longrightarrow>
   run_select d QUERY_FLIGHT_BY_DATE ps = run_select [(''flights'', ft)] QUERY_FLIGHT_BY_DATE ps"
  by (simp add: QUERY_FLIGHT_BY_DATE_def source_rows_def find_table_def same_name_def bindE_def)

text \<open>
  \<open>QUERY_FLIGHT_BY_AIRLINE\<close> selects \<open>airlines.*\<close>, not \<open>flights.*\<close>: the \<open>ID\<close> of its
  records is the key of the airline.
\<close>

lemma by_airline_id_is_airline_key:
  "record_of (join_scope sample_flights sample_airlines) (result_columns QUERY_FLIGHT_BY_AIRLINE)
     ([VInt 119, VInt 2015, VInt 1, VInt 14, VInt 7, VStr ''SEA'', VStr ''LAX'', VNone] @
      [VInt 7, VStr ''Delta'']) ''ID'' = Some (VInt 7)"
  by code_simp

lemma sample_by_date:
  "run_select sample_db QUERY_FLIGHT_BY_DATE
     [''day'' \<mapsto> VInt 14, ''month'' \<mapsto> VInt 1, ''year'' \<mapsto> VInt 2015] =
   Inr [[(''ID'', VInt 119), (''YEAR'', VInt 2015), (''MONTH'', VInt 1), (''DAY'', VInt 14),
         (''AIRLINE'', VInt 7), (''ORIGIN_AIRPORT'', VStr ''SEA''),
         (''DESTINATION_AIRPORT'', VStr ''LAX''), (''DEPARTURE_DELAY'', VNone),
         (''FLIGHT_ID'', VInt 119), (''ORIGIN_AIRPORT'', VStr ''SEA''),
         (''DESTINATION_AIRPORT'', VStr ''LAX''), (''DELAY'', VNone)],
        [(''ID'', VInt 120), (''YEAR'', VInt 2015), (''MONTH'', VInt 1), (''DAY'', VInt 14),
         (''AIRLINE'', VInt 7), (''ORIGIN_AIRPORT'', VStr ''SEA''),
         (''DESTINATION_AIRPORT'', VStr ''JFK''), (''DEPARTURE_DELAY'', VInt 45),
         (''FLIGHT_ID'', VInt 120), (''ORIGIN_AIRPORT'', VStr ''SEA''),
         (''DESTINATION_AIRPORT'', VStr ''JFK''), (''DELAY'', VInt 45)]]"
  by code_simp

lemma str_int_7: "str_int 7 = ''7''"
  by (simp add: str_int_def digits_of.simps)

lemma str_int_2: "str_int 2 = ''2''"
  by (simp add: str_int_def digits_of.simps)

lemma str_int_119: "str_int 119 = ''119''"
  by (simp add: str_int_def digits_of.simps)

text \<open>
  C3. \<open>QUERY_FLIGHT_BY_DATE\<close> joins no table and projects no column of \<open>airlines\<close>, while
  the three other statements project \<open>airlines.AIRLINE\<close>. The records of
  \<open>get_flights_by_date\<close> therefore carry under \<open>AIRLINE\<close> what \<open>flights.AIRLINE\<close> holds,
  the key of the airline, and \<open>print_results\<close> shows that key where the name belongs.
\<close>

theorem by_date_airline_not_resolved:
  "join_clause QUERY_FLIGHT_BY_DATE = None \<and>
   \<not> projects_column QUERY_FLIGHT_BY_DATE ''airlines'' ''AIRLINE'' \<and>
   projects_column QUERY_FLIGHT_BY_ID ''airlines'' ''AIRLINE'' \<and>
   projects_column QUERY_FLIGHT_BY_AIRPORT ''airlines'' ''AIRLINE'' \<and>
   projects_column QUERY_FLIGHT_BY_AIRLINE ''airlines'' ''AIRLINE'' \<and>
   (\<exists>r1 r2.
      fst (get_flights_by_date sample_engine (VInt 14) (VInt 1) (VInt 2015)) = Inr [r1, r2] \<and>
      r1 ''AIRLINE'' = Some (VInt 7) \<and> r2 ''AIRLINE'' = Some (VInt 7) \<and>
      print_results [r1, r2] =
        ([''Got 2 results.'', ''119. SEA -> LAX by 7'', ''120. SEA -> JFK by 7, Delay: 45 Minutes''],
         None))"
proof -
  have st: "store sample_engine = Some sample_db"
    by (simp add: sample_engine_def)
  have 1: "join_clause QUERY_FLIGHT_BY_DATE = None"
    by (simp add: QUERY_FLIGHT_BY_DATE_def)
  have 2: "\<not> projects_column QUERY_FLIGHT_BY_DATE ''airlines'' ''AIRLINE''"
    by (simp add: projects_column_def QUERY_FLIGHT_BY_DATE_def same_name_def upper_char_def)
  have 3: "projects_column QUERY_FLIGHT_BY_ID ''airlines'' ''AIRLINE''"
    by (simp add: projects_column_def QUERY_FLIGHT_BY_ID_def same_name_def upper_char_def)
  have 4: "projects_column QUERY_FLIGHT_BY_AIRPORT ''airlines'' ''AIRLINE''"
    by (simp add: projects_column_def QUERY_FLIGHT_BY_AIRPORT_def same_name_def upper_char_def)
  have 5: "projects_column QUERY_FLIGHT_BY_AIRLINE ''airlines'' ''AIRLINE''"
    by (simp add: projects_column_def QUERY_FLIGHT_BY_AIRLINE_def same_name_def upper_char_def)
  have 6: "\<exists>r1 r2.
      fst (get_flights_by_date sample_engine (VInt 14) (VInt 1) (VInt 2015)) = Inr [r1, r2] \<and>
      r1 ''AIRLINE'' = Some (VInt 7) \<and> r2 ''AIRLINE'' = Some (VInt 7) \<and>
      print_results [r1, r2] =
        ([''Got 2 results.'', ''119. SEA -> LAX by 7'', ''120. SEA -> JFK by 7, Delay: 45 Minutes''],
         None)"
    by (simp add: get_flights_by_date_def fst_execute_query [OF st] sample_by_date asdict_def
        print_results_def try_block_def getitem_def bindE_def flight_line_def delayed_line_def
        str_int_2 str_int_7 str_int_45 str_int_119 str_int_120)
  from 1 2 3 4 5 6 show ?thesis by blast
qed

section \<open>Properties of the airport prompt\<close>

lemma valid_iff: "(isalpha s \<and> length s = IATA_LENGTH) = three_letters s"
  by (auto simp: isalpha_def IATA_LENGTH_def three_letters_def)

lemma loop_skip:
  "\<forall>x \<in> set pre. \<not> three_letters x \<Longrightarrow>
   airport_input_loop (pre @ inputs) =
     (case airport_input_loop inputs of
        (r, rest, out) \<Rightarrow> (r, rest, replicate (length pre) airport_prompt @ out))"
  by (induction pre) (auto simp: valid_iff split: prod.splits)

lemma loop_result:
  "airport_input_loop inputs = (Inr a, rest, out) \<Longrightarrow> three_letters a \<and> a \<in> set inputs"
  by (induction inputs arbitrary: out) (auto simp: valid_iff split: if_splits prod.splits)

lemma events_by_airport:
  "events (snd (get_delayed_flights_by_airport dm v)) =
     events dm @ (if store dm = None then []
                  else [Connect, Execute QUERY_FLIGHT_BY_AIRPORT [''origin_airport'' \<mapsto> v], Close])"
  by (simp add: get_delayed_flights_by_airport_def snd_execute_query split: option.splits)

lemma engine_after:
  "fst (snd (delayed_flights_by_airport dm inputs)) =
     (case fst (airport_input_loop inputs) of
        Inl e \<Rightarrow> dm
      | Inr a \<Rightarrow> snd (get_delayed_flights_by_airport dm (VStr a)))"
  by (auto simp: delayed_flights_by_airport_def split: prod.splits sum.splits)

lemma SE_invalid: "\<not> three_letters ''SE''"
  by (simp add: three_letters_def)

lemma SEA_valid: "three_letters ''SEA''"
  by (simp add: three_letters_def is_alpha_char_def)

text \<open>
  C6. Let every line before \<open>x\<close> fail the test. If \<open>x\<close> consists of exactly three
  alphabetic characters, the loop ends with \<open>x\<close> and \<open>x\<close> is what the gateway is asked
  for; otherwise the loop prompts again and goes on with the lines after \<open>x\<close>. In every
  run, each statement that \<open>delayed_flights_by_airport\<close> has executed binds
  \<open>origin_airport\<close> to an input of exactly three alphabetic characters.
\<close>

theorem airport_code_validation:
  assumes "\<forall>x \<in> set pre. \<not> three_letters x"
  shows "(three_letters x \<longrightarrow>
            airport_input_loop (pre @ x # rest) =
              (Inr x, rest, replicate (Suc (length pre)) airport_prompt) \<and>
            events (fst (snd (delayed_flights_by_airport dm (pre @ x # rest)))) =
              events dm @ (if store dm = None then []
                           else [Connect,
                                 Execute QUERY_FLIGHT_BY_AIRPORT [''origin_airport'' \<mapsto> VStr x],
                                 Close])) \<and>
         (\<not> three_letters x \<longrightarrow>
            airport_input_loop (pre @ x # rest) =
              (case airport_input_loop rest of
                 (r, rest', out) \<Rightarrow> (r, rest', replicate (Suc (length pre)) airport_prompt @ out))) \<and>
         (\<forall>inputs query ps.
            Execute query ps \<in> set (drop (length (events dm))
                 (events (fst (snd (delayed_flights_by_airport dm inputs))))) \<longrightarrow>
            query = QUERY_FLIGHT_BY_AIRPORT \<and>
            (\<exists>a \<in> set inputs. three_letters a \<and> ps = [''origin_airport'' \<mapsto> VStr a]))"
proof (intro conjI impI allI)
  assume v: "three_letters x"
  then show l: "airport_input_loop (pre @ x # rest) =
      (Inr x, rest, replicate (Suc (length pre)) airport_prompt)"
    using assms by (simp add: loop_skip valid_iff replicate_append_same)
  show "events (fst (snd (delayed_flights_by_airport dm (pre @ x # rest)))) =
      events dm @ (if store dm = None then []
                   else [Connect, Execute QUERY_FLIGHT_BY_AIRPORT [''origin_airport'' \<mapsto> VStr x], Close])"
    by (simp add: engine_after l events_by_airport)
next
  assume "\<not> three_letters x"
  then show "airport_input_loop (pre @ x # rest) =
      (case airport_input_loop rest of
         (r, rest', out) \<Rightarrow> (r, rest', replicate (Suc (length pre)) airport_prompt @ out))"
    using assms by (simp add: loop_skip valid_iff replicate_append_same split: prod.splits)
next
  fix inputs query ps
  assume e: "Execute query ps \<in> set (drop (length (events dm))
                 (events (fst (snd (delayed_flights_by_airport dm inputs)))))"
  obtain r rest' out where l: "airport_input_loop inputs = (r, rest', out)"
    by (cases "airport_input_loop inputs") auto
  show "query = QUERY_FLIGHT_BY_AIRPORT"
    using e l by (cases r) (auto simp: engine_after events_by_airport split: if_splits)
  show "\<exists>a \<in> set inputs. three_letters a \<and> ps = [''origin_airport'' \<mapsto> VStr a]"
  proof (cases r)
    case (Inl err)
    then show ?thesis using e l by (simp add: engine_after)
  next
    case (Inr a)
    then have "three_letters a \<and> a \<in> set inputs" using l loop_result by blast
    moreover have "ps = [''origin_airport'' \<mapsto> VStr a]"
      using e l Inr by (auto simp: engine_after events_by_airport split: if_splits)
    ultimately show ?thesis by blast
  qed
qed

theorem airport_code_validation_witness:
  "airport_input_loop [''SE'', ''SEA'', ''JFK''] =
     (Inr ''SEA'', [''JFK''], [airport_prompt, airport_prompt]) \<and>
   events (fst (snd (delayed_flights_by_airport sample_engine [''SE'', ''SEA'', ''JFK'']))) =
     [Connect, Execute QUERY_FLIGHT_BY_AIRPORT [''origin_airport'' \<mapsto> VStr ''SEA''], Close] \<and>
   airport_input_loop [''SE''] = (Inl EOFError, [], [airport_prompt, airport_prompt])"
  using airport_code_validation [of "[''SE'']" "''SEA''" "[''JFK'']" sample_engine]
    airport_code_validation [of "[]" "''SE''" "[]" sample_engine]
  by (simp add: SE_invalid SEA_valid sample_engine_def)

end
